theory Spec2Isabelle
  imports Main "HOL-Library.Sublist"
begin

section \<open>Python values, truthiness and exceptions\<close>

text \<open>
  The package is dynamically typed: the same parameter of \<open>_client_factory\<close> receives a
  string, \<open>None\<close> or a token-cache object, so values that cross such a boundary are
  modelled by one datatype. \<open>PObj\<close> is an opaque object (the token cache of the token
  library, an account); the string it carries only tells objects apart.
\<close>

datatype pyval =
    PNone
  | PStr string
  | PList "pyval list"
  | PDict "string \<Rightarrow> pyval option"
  | PObj string

type_synonym pydict = "string \<Rightarrow> pyval option"

text \<open>Request parameters are a flat mapping from names to strings.\<close>

type_synonym params = "string \<Rightarrow> string option"

text \<open>Python's truth value of an object, as \<open>if x\<close>, \<open>not x\<close> and \<open>x or y\<close> test it.\<close>

fun truthy :: "pyval \<Rightarrow> bool" where
  "truthy PNone = False"
| "truthy (PStr s) = (s \<noteq> [])"
| "truthy (PList xs) = (xs \<noteq> [])"
| "truthy (PDict m) = (dom m \<noteq> {})"
| "truthy (PObj r) = True"

text \<open>\<open>a or b\<close> where evaluating \<open>b\<close> cannot raise.\<close>

definition py_or :: "pyval \<Rightarrow> pyval \<Rightarrow> pyval" where
  "py_or a b = (if truthy a then a else b)"

text \<open>A value that is a string or \<open>None\<close>, as a Python value.\<close>

definition py_of :: "string option \<Rightarrow> pyval" where
  "py_of x = (case x of None \<Rightarrow> PNone | Some s \<Rightarrow> PStr s)"

text \<open>
  Modelled from the spec: \<open>errors.py\<close> is not part of the sources. The exception classes
  the package raises are the error kinds of the specification's taxonomy, none of them a
  subclass of another, so that each \<open>except\<close> clause of the redirect handler catches its
  own class only. Beside them stand the built-in exceptions the statements of the package
  can raise, and \<open>ClientError\<close> for whatever the token library raises.
  \<open>TokenExchangeError\<close> carries the two values its message is formatted from:
  \<open>result['error']\<close> and \<open>result.get('error_description', None)\<close>.
\<close>

datatype exn =
    AuthSecurityError string
  | OtherAuthError string
  | B2CPasswordError string
  | TokenExchangeError pyval pyval
  | NotImplementedError string
  | AttributeError string
  | IndexError
  | TypeError
  | ClientError string

section \<open>Context Data, configuration and collaborators\<close>

text \<open>
  Modelled from the spec: \<open>context.py\<close> is not part of the sources. Context Data has the
  fields of the specification's data model; the orchestrator reads and assigns them as
  plain attributes.
\<close>

record IdentityContextData =
  authenticated :: bool
  state :: "string option"
  nonce :: "string option"
  last_used_b2c_policy :: pyval
  username :: pyval
  id_token_claims :: pyval
  access_token :: pyval
  token_cache :: pyval
  has_changed :: bool

text \<open>
  \<open>constants.py\<close> is not part of the sources; the string values of the enumeration
  members that \<open>__init__.py\<close> reads are parameters of the model.
\<close>

record constants =
  ERROR_CODE_PARAM_KEY :: string
  B2C_FORGOT_PASSWORD_ERROR_CODE :: string
  ResponseType_CODE :: string
  AuthorityType_B2C :: string
  Prompt_PARAM_KEY :: string
  Prompt_SELECT_ACCOUNT :: string

text \<open>
  The configuration object \<open>aad_config\<close>: the attribute dictionaries of its \<open>client\<close> and
  \<open>auth_request\<close> sections (both are copied through \<open>__dict__\<close>), and the attributes
  \<open>client.authority\<close>, \<open>type.authority_type\<close>, \<open>b2c.susi\<close> and \<open>b2c.password\<close>.
\<close>

record aad_config =
  client_dict :: pydict
  client_authority :: string
  auth_request_dict :: pydict
  authority_type :: string
  b2c_susi :: string
  b2c_password :: string

text \<open>
  Reading an attribute of \<open>aad_config.auth_request\<close> (\<open>scopes\<close>, \<open>redirect_uri\<close>,
  \<open>response_type\<close>): an attribute the section does not have raises \<open>AttributeError\<close>.
\<close>

definition auth_request_attr :: "aad_config \<Rightarrow> string \<Rightarrow> exn + pyval" where
  "auth_request_attr cfg a =
     (case auth_request_dict cfg a of
        None \<Rightarrow> Inl (AttributeError a)
      | Some v \<Rightarrow> Inr v)"

text \<open>
  The token library (msal) and the Python runtime, as far as the package calls them. A
  client is represented by the keyword arguments \<open>ConfidentialClientApplication\<close> was
  constructed with; each operation takes them first. An operation either raises
  (\<open>Inl\<close> the message) or returns; a failure of the constructor is a failure of the first
  operation on the client, since the package changes nothing between the two. The silent
  acquisition returns \<open>None\<close> when the cache holds no suitable token.
  \<open>str_of\<close> is what \<open>str()\<close> gives for a value that is not a string.
\<close>

record library =
  get_authorization_request_url :: "pydict \<Rightarrow> pydict \<Rightarrow> string + string"
  acquire_token_by_authorization_code ::
    "pydict \<Rightarrow> pyval \<Rightarrow> pyval \<Rightarrow> pyval \<Rightarrow> pyval \<Rightarrow> string + pydict"
  get_accounts :: "pydict \<Rightarrow> string + pyval list"
  acquire_token_silent_with_error :: "pydict \<Rightarrow> pydict \<Rightarrow> string + pydict option"
  str_of :: "pyval \<Rightarrow> string"

text \<open>An exception of the token library, as it propagates into the package.\<close>

definition from_client :: "string + 'a \<Rightarrow> exn + 'a" where
  "from_client r = (case r of Inl m \<Rightarrow> Inl (ClientError m) | Inr v \<Rightarrow> Inr v)"

text \<open>The conversion an f-string applies to a value.\<close>

definition format_value :: "library \<Rightarrow> pyval \<Rightarrow> string" where
  "format_value lib v = (case v of PStr s \<Rightarrow> s | _ \<Rightarrow> str_of lib v)"

text \<open>
  What a handler hands back to the host framework: the \<open>next_action\<close> it was given, or
  a redirect instruction.
\<close>

datatype 'a reply = NextAction 'a | RedirectTo string

text \<open>
  Modelled from the spec: the adapter's \<open>redirect_to_absolute_url\<close> is in
  \<open>adapters.py\<close>, which is not part of the sources; it yields the redirect instruction to
  the URL it is given.
\<close>

definition redirect_to_absolute_url :: "string \<Rightarrow> 'a reply" where
  "redirect_to_absolute_url url = RedirectTo url"

text \<open>
  Modelled from the spec: the adapter's \<open>clear_session\<close> is in \<open>adapters.py\<close>, which is not
  part of the sources. The specification says that it clears all session-bound Context
  Data: every field returns to its default (not authenticated, user name
  \<open>anonymous\<close>, everything else absent), and the record is marked as changed so that the
  adapter persists it.
\<close>

definition clear_session :: "IdentityContextData \<Rightarrow> IdentityContextData" where
  "clear_session c =
     \<lparr> authenticated = False, state = None, nonce = None, last_used_b2c_policy = PNone,
       username = PStr ''anonymous'', id_token_claims = PNone, access_token = PNone,
       token_cache = PNone, has_changed = True \<rparr>"

section \<open>The orchestrator\<close>

text \<open>
  The decorator \<open>require_context_adapter\<close> writes a log line when the adapter is missing and
  then calls the decorated method all the same; like the logger calls it leaves no trace
  in the model. \<open>self.id_data\<close> and \<open>self._adapter.identity_context_data\<close> are the same
  record, which every operation receives and returns.
\<close>

subsection \<open>\<open>_client_factory\<close>\<close>

text \<open>
  \<open>_client_factory(self, token_cache=None, b2c_policy=None, **msal_client_kwargs)\<close>; the
  arguments of the model are in the order of the parameters. The result is the keyword
  dictionary the client is constructed from.
\<close>

definition client_factory ::
  "library \<Rightarrow> aad_config \<Rightarrow> pyval \<Rightarrow> pyval \<Rightarrow> pydict \<Rightarrow> pydict" where
  "client_factory lib cfg token_cache' b2c_policy msal_client_kwargs =
     (let client_config = client_dict cfg;
          client_config = client_config(''authority'' \<mapsto>
            PStr (client_authority cfg @ format_value lib (py_or b2c_policy (PStr []))));
          client_config =
            (if truthy token_cache' then client_config(''token_cache'' \<mapsto> token_cache')
             else client_config)
      in client_config ++ msal_client_kwargs)"

subsection \<open>\<open>prepare_b2c_auth\<close> and \<open>get_auth_url\<close>\<close>

definition prepare_b2c_auth ::
  "constants \<Rightarrow> aad_config \<Rightarrow> pydict \<Rightarrow> pyval \<Rightarrow> IdentityContextData
     \<Rightarrow> pydict \<times> pyval \<times> IdentityContextData" where
  "prepare_b2c_auth k cfg auth_req_config_dict b2c_policy c =
     (let (auth_req_config_dict, b2c_policy) =
            (if \<not> truthy b2c_policy then (auth_req_config_dict, PStr (b2c_susi cfg))
             else if b2c_policy \<noteq> PStr (b2c_susi cfg) \<and>
                     auth_req_config_dict (Prompt_PARAM_KEY k) = Some (PStr (Prompt_SELECT_ACCOUNT k))
               then (auth_req_config_dict(Prompt_PARAM_KEY k := None), b2c_policy)
             else (auth_req_config_dict, b2c_policy))
      in (auth_req_config_dict, b2c_policy, c\<lparr>last_used_b2c_policy := b2c_policy\<rparr>))"

text \<open>
  \<open>get_auth_url(self, redirect_uri=None, b2c_policy=None, token_cache=None,
  **msal_auth_url_kwargs)\<close>. The parameter \<open>token_cache\<close> is never read.
\<close>

definition get_auth_url ::
  "library \<Rightarrow> constants \<Rightarrow> aad_config \<Rightarrow> pyval \<Rightarrow> pyval \<Rightarrow> pyval \<Rightarrow> pydict
     \<Rightarrow> IdentityContextData \<Rightarrow> (exn + string) \<times> IdentityContextData" where
  "get_auth_url lib k cfg redirect_uri b2c_policy token_cache' msal_auth_url_kwargs c =
     (let auth_req_config = auth_request_dict cfg ++ msal_auth_url_kwargs;
          auth_req_config =
            (if truthy redirect_uri then auth_req_config(''redirect_uri'' \<mapsto> redirect_uri)
             else auth_req_config)
      in if authority_type cfg = AuthorityType_B2C k then
           (case prepare_b2c_auth k cfg auth_req_config b2c_policy c of
              (auth_req_config, b2c_policy, c1) \<Rightarrow>
                (from_client (get_authorization_request_url lib
                   (client_factory lib cfg PNone b2c_policy Map.empty) auth_req_config), c1))
         else
           (from_client (get_authorization_request_url lib
              (client_factory lib cfg PNone PNone Map.empty) auth_req_config), c))"

subsection \<open>State verification, provider errors, payload\<close>

definition verify_state ::
  "params \<Rightarrow> IdentityContextData \<Rightarrow> (exn + unit) \<times> IdentityContextData" where
  "verify_state req_params c =
     (let state' = req_params ''state'';
          session_state = state c
      in if state' = None \<or> session_state \<noteq> state'
         then (Inl (AuthSecurityError ''Failed to match request state with session state''), c)
         else (Inr (), c\<lparr>state := None\<rparr>))"

definition verify_nonce ::
  "params \<Rightarrow> IdentityContextData \<Rightarrow> (exn + unit) \<times> IdentityContextData" where
  "verify_nonce req_params c =
     (let nonce' = req_params ''nonce'';
          session_nonce = nonce c
      in if nonce' = None \<or> session_nonce \<noteq> nonce'
         then (Inl (AuthSecurityError ''Failed to match ID token nonce with session nonce''), c)
         else (Inr (), c\<lparr>nonce := None\<rparr>))"

definition parse_redirect_errors :: "constants \<Rightarrow> params \<Rightarrow> exn + unit" where
  "parse_redirect_errors k req_params =
     (case req_params (ERROR_CODE_PARAM_KEY k) of
        None \<Rightarrow> Inr ()
      | Some error_code \<Rightarrow>
          if prefix (B2C_FORGOT_PASSWORD_ERROR_CODE k) error_code
          then Inl (B2CPasswordError ''B2C password reset request'')
          else Inl (OtherAuthError ''Unknown error while parsing redirect''))"

definition extract_auth_response_payload ::
  "constants \<Rightarrow> params \<Rightarrow> pyval \<Rightarrow> exn + pyval" where
  "extract_auth_response_payload k req_params expected_response_type =
     (if expected_response_type = PStr (ResponseType_CODE k)
      then Inr (py_of (req_params (ResponseType_CODE k)))
      else Inl (NotImplementedError
             ''Only code response is currently supported by identity utils''))"

subsection \<open>Code exchange and result processing\<close>

text \<open>
  The client that \<open>_x_change_auth_code_for_token\<close> builds. The source passes the policy
  and the cache by position, \<open>self._client_factory(b2c_policy, token_cache)\<close>, so the
  policy arrives in the first parameter and the cache in the second.
\<close>

definition x_change_client ::
  "library \<Rightarrow> constants \<Rightarrow> aad_config \<Rightarrow> pyval \<Rightarrow> IdentityContextData \<Rightarrow> pydict" where
  "x_change_client lib k cfg token_cache' id_context =
     (let b2c_policy =
            (if authority_type cfg = AuthorityType_B2C k
             then last_used_b2c_policy id_context else PNone)
      in client_factory lib cfg b2c_policy token_cache' Map.empty)"

definition x_change_auth_code_for_token ::
  "library \<Rightarrow> constants \<Rightarrow> aad_config \<Rightarrow> pyval \<Rightarrow> pyval \<Rightarrow> pyval \<Rightarrow> IdentityContextData
     \<Rightarrow> exn + pydict" where
  "x_change_auth_code_for_token lib k cfg code token_cache' redirect_uri id_context =
     (let client = x_change_client lib k cfg token_cache' id_context
      in case (if truthy redirect_uri then Inr redirect_uri
               else case auth_request_attr cfg ''redirect_uri'' of
                      Inl e \<Rightarrow> Inl e
                    | Inr v \<Rightarrow> Inr (py_or v PNone)) of
           Inl e \<Rightarrow> Inl e
         | Inr redirect_uri \<Rightarrow>
             (case auth_request_attr cfg ''scopes'' of
                Inl e \<Rightarrow> Inl e
              | Inr scopes \<Rightarrow>
                  from_client (acquire_token_by_authorization_code lib client code scopes
                    redirect_uri (py_of (nonce id_context)))))"

definition process_result ::
  "pydict \<Rightarrow> pyval \<Rightarrow> IdentityContextData \<Rightarrow> (exn + unit) \<times> IdentityContextData" where
  "process_result result token_cache' c =
     (case result ''error'' of
        None \<Rightarrow>
          (let id_context = c\<lparr>authenticated := True\<rparr>;
               claims_step =
                 (case result ''id_token_claims'' of
                    None \<Rightarrow> Inr id_context
                  | Some claims \<Rightarrow>
                      (let id_context = id_context\<lparr>id_token_claims := claims\<rparr>
                       in case claims of
                            PDict d \<Rightarrow>
                              Inr (id_context\<lparr>username :=
                                (case d ''name'' of None \<Rightarrow> PStr ''anonymous'' | Some v \<Rightarrow> v)\<rparr>)
                          | _ \<Rightarrow> Inl (AttributeError ''get'', id_context)))
           in case claims_step of
                Inl (e, id_context) \<Rightarrow> (Inl e, id_context)
              | Inr id_context \<Rightarrow>
                  (let id_context =
                         (case result ''access_token'' of
                            None \<Rightarrow> id_context
                          | Some t \<Rightarrow> id_context\<lparr>access_token := t\<rparr>)
                   in (Inr (), id_context\<lparr>has_changed := True, token_cache := token_cache'\<rparr>)))
      | Some err \<Rightarrow>
          (Inl (TokenExchangeError err
             (case result ''error_description'' of None \<Rightarrow> PNone | Some d \<Rightarrow> d)), c))"

subsection \<open>\<open>remove_user\<close>\<close>

definition remove_user :: "IdentityContextData \<Rightarrow> IdentityContextData" where
  "remove_user c = clear_session c"

subsection \<open>\<open>process_auth_redirect\<close>\<close>

text \<open>
  The expression \<open>response_type or self.aad_config.auth_request.response_type or
  str(ResponseType.CODE)\<close>: the attribute is read only when the argument is false.
\<close>

definition resp_type_of :: "constants \<Rightarrow> aad_config \<Rightarrow> pyval \<Rightarrow> exn + pyval" where
  "resp_type_of k cfg response_type =
     (if truthy response_type then Inr response_type
      else case auth_request_attr cfg ''response_type'' of
             Inl e \<Rightarrow> Inl e
           | Inr v \<Rightarrow> Inr (py_or v (PStr (ResponseType_CODE k))))"

text \<open>
  The body of the \<open>try\<close> statement: the outcome is the exception that leaves it, or the
  value of \<open>return next_action\<close>, together with Context Data as the body left it.
\<close>

definition process_auth_redirect_try ::
  "library \<Rightarrow> constants \<Rightarrow> aad_config \<Rightarrow> params \<Rightarrow> 'a \<Rightarrow> pyval \<Rightarrow> pyval
     \<Rightarrow> IdentityContextData \<Rightarrow> (exn + 'a) \<times> IdentityContextData" where
  "process_auth_redirect_try lib k cfg req_params next_action redirect_uri response_type c =
     (case verify_state req_params c of
        (Inl e, c1) \<Rightarrow> (Inl e, c1)
      | (Inr _, c1) \<Rightarrow>
     (case parse_redirect_errors k req_params of
        Inl e \<Rightarrow> (Inl e, c1)
      | Inr _ \<Rightarrow>
     (case resp_type_of k cfg response_type of
        Inl e \<Rightarrow> (Inl e, c1)
      | Inr resp_type \<Rightarrow>
     (case extract_auth_response_payload k req_params resp_type of
        Inl e \<Rightarrow> (Inl e, c1)
      | Inr payload \<Rightarrow>
     (let cache = token_cache c1
      in if resp_type = PStr (ResponseType_CODE k) then
           (case x_change_auth_code_for_token lib k cfg payload cache redirect_uri c1 of
              Inl e \<Rightarrow> (Inl e, c1)
            | Inr result \<Rightarrow>
                (case process_result result cache c1 of
                   (Inl e, c2) \<Rightarrow> (Inl e, c2)
                 | (Inr _, c2) \<Rightarrow> (Inr next_action, c2)))
         else (Inl (NotImplementedError
                 ''response_type is not yet implemented by ms_identity_web_python''), c1))))))"

text \<open>
  The \<open>except\<close> clauses, in the order of the source. Only the clause for
  \<open>B2CPasswordError\<close> returns by itself; it calls
  \<open>self.get_auth_url(policy = self.aad_config.b2c.password)\<close>, and since \<open>get_auth_url\<close> has
  no parameter \<open>policy\<close> the keyword lands in \<open>msal_auth_url_kwargs\<close>. An exception raised
  inside a clause is not handled by the clauses after it. The other clauses fall through
  to the final \<open>return next_action\<close>.
\<close>

definition process_auth_redirect ::
  "library \<Rightarrow> constants \<Rightarrow> aad_config \<Rightarrow> params \<Rightarrow> 'a \<Rightarrow> pyval \<Rightarrow> pyval
     \<Rightarrow> IdentityContextData \<Rightarrow> (exn + 'a reply) \<times> IdentityContextData" where
  "process_auth_redirect lib k cfg req_params next_action redirect_uri response_type c =
     (case process_auth_redirect_try lib k cfg req_params next_action redirect_uri
             response_type c of
        (Inr r, c1) \<Rightarrow> (Inr (NextAction r), c1)
      | (Inl e, c1) \<Rightarrow>
          (case e of
             AuthSecurityError m \<Rightarrow> (Inr (NextAction next_action), remove_user c1)
           | OtherAuthError m \<Rightarrow> (Inr (NextAction next_action), remove_user c1)
           | B2CPasswordError m \<Rightarrow>
               (case get_auth_url lib k cfg PNone PNone PNone
                       [''policy'' \<mapsto> PStr (b2c_password cfg)] (remove_user c1) of
                  (Inl e', c2) \<Rightarrow> (Inl e', c2)
                | (Inr pw_reset_url, c2) \<Rightarrow> (Inr (redirect_to_absolute_url pw_reset_url), c2))
           | TokenExchangeError err d \<Rightarrow> (Inr (NextAction next_action), remove_user c1)
           | _ \<Rightarrow> (Inr (NextAction next_action), remove_user c1)))"

subsection \<open>\<open>acquire_token_silently\<close>\<close>

text \<open>
  The two \<open>or\<close> expressions of \<open>acquire_token_silently\<close>. In
  \<open>scopes or self.aad_config.auth_request.scopes\<close> the attribute is read only when the
  argument is false. In \<open>account or client.get_accounts()[0]\<close> the client is asked only
  when the argument is false, and reading the first element of the empty list raises
  \<open>IndexError\<close>.
\<close>

definition silent_scopes :: "aad_config \<Rightarrow> pyval \<Rightarrow> exn + pyval" where
  "silent_scopes cfg scopes =
     (if truthy scopes then Inr scopes else auth_request_attr cfg ''scopes'')"

definition silent_account :: "library \<Rightarrow> pydict \<Rightarrow> pyval \<Rightarrow> exn + pyval" where
  "silent_account lib client account =
     (if truthy account then Inr account
      else case from_client (get_accounts lib client) of
             Inl e \<Rightarrow> Inl e
           | Inr [] \<Rightarrow> Inl IndexError
           | Inr (a # _) \<Rightarrow> Inr a)"

text \<open>
  \<open>acquire_token_silently(self, scopes=None, account=None, authority=None,
  token_cache=None, **kwargs)\<close>; the parameter \<open>authority\<close> is never read and is left out.
  The silent call of the token library returns a result dictionary or \<open>None\<close>. On \<open>None\<close>
  the first statement of \<open>_process_result\<close>, the test \<open>"error" not in result\<close>, raises
  \<open>TypeError\<close> before anything is assigned.
\<close>

definition acquire_token_silently ::
  "library \<Rightarrow> aad_config \<Rightarrow> pyval \<Rightarrow> pyval \<Rightarrow> pyval \<Rightarrow> pydict \<Rightarrow> IdentityContextData
     \<Rightarrow> (exn + unit) \<times> IdentityContextData" where
  "acquire_token_silently lib cfg scopes account token_cache' kwargs c =
     (let id_data = c;
          token_cache' = py_or token_cache' (token_cache id_data);
          client = client_factory lib cfg token_cache' PNone Map.empty;
          silent_opts = Map.empty ++ kwargs
      in case silent_scopes cfg scopes of
           Inl e \<Rightarrow> (Inl e, c)
         | Inr scopes \<Rightarrow>
        (let silent_opts = silent_opts(''scopes'' \<mapsto> scopes)
         in case silent_account lib client account of
              Inl e \<Rightarrow> (Inl e, c)
            | Inr account \<Rightarrow>
           (let silent_opts = silent_opts(''account'' \<mapsto> account)
            in case from_client (acquire_token_silent_with_error lib client silent_opts) of
                 Inl e \<Rightarrow> (Inl e, c)
               | Inr None \<Rightarrow> (Inl TypeError, c)
               | Inr (Some result) \<Rightarrow> process_result result token_cache' c)))"

section \<open>Scenario data\<close>

text \<open>
  Concrete values for the end-to-end scenarios of the specification: the constants as the
  specification names them (\<open>error\<close>, \<open>AADB2C90118\<close>, \<open>code\<close>), a policy-based and a standard
  configuration, a session with the stored state \<open>s1\<close>, and token clients.
\<close>

definition k0 :: constants where
  "k0 = \<lparr> ERROR_CODE_PARAM_KEY = ''error'', B2C_FORGOT_PASSWORD_ERROR_CODE = ''AADB2C90118'',
          ResponseType_CODE = ''code'', AuthorityType_B2C = ''B2C'',
          Prompt_PARAM_KEY = ''prompt'', Prompt_SELECT_ACCOUNT = ''select_account'' \<rparr>"

definition cfg_b2c :: aad_config where
  "cfg_b2c = \<lparr> client_dict = [''client_id'' \<mapsto> PStr ''app''],
              client_authority = ''https://login.example/tenant/'',
              auth_request_dict =
                [''scopes'' \<mapsto> PList [PStr ''read''], ''redirect_uri'' \<mapsto> PStr ''https://app/cb'',
                 ''response_type'' \<mapsto> PStr ''code''],
              authority_type = ''B2C'', b2c_susi = ''b2c_1_susi'',
              b2c_password = ''b2c_1_reset'' \<rparr>"

definition cfg_aad :: aad_config where
  "cfg_aad = cfg_b2c\<lparr>authority_type := ''SINGLE_TENANT''\<rparr>"

definition c0 :: IdentityContextData where
  "c0 = \<lparr> authenticated = False, state = Some ''s1'', nonce = Some ''n1'',
         last_used_b2c_policy = PStr ''b2c_1_susi'', username = PStr ''anonymous'',
         id_token_claims = PNone, access_token = PNone, token_cache = PNone,
         has_changed = False \<rparr>"

text \<open>
  A token client that answers every code with the tokens of scenario 1, has no cached
  account, and builds an authorization URL from the authority it was constructed with.
\<close>

definition lib0 :: library where
  "lib0 = \<lparr> get_authorization_request_url =
             (\<lambda>client kwargs. case client ''authority'' of
                Some (PStr a) \<Rightarrow> Inr (a @ ''/oauth2/v2.0/authorize'')
              | _ \<Rightarrow> Inr ''/oauth2/v2.0/authorize''),
           acquire_token_by_authorization_code =
             (\<lambda>client code scopes redirect_uri nonce'.
                Inr [''access_token'' \<mapsto> PStr ''tok'',
                     ''id_token_claims'' \<mapsto> PDict [''name'' \<mapsto> PStr ''alice'']]),
           get_accounts = (\<lambda>client. Inr []),
           acquire_token_silent_with_error =
             (\<lambda>client kwargs. Inr (Some [''error'' \<mapsto> PStr ''interaction_required''])),
           str_of = (\<lambda>v. ''object'') \<rparr>"

text \<open>A token client whose every operation raises.\<close>

definition lib_down :: library where
  "lib_down = \<lparr> get_authorization_request_url = (\<lambda>client kwargs. Inl ''unreachable''),
               acquire_token_by_authorization_code =
                 (\<lambda>client code scopes redirect_uri nonce'. Inl ''unreachable''),
               get_accounts = (\<lambda>client. Inl ''unreachable''),
               acquire_token_silent_with_error = (\<lambda>client kwargs. Inl ''unreachable''),
               str_of = (\<lambda>v. ''object'') \<rparr>"

text \<open>
  Token clients whose silent acquisition tells the accounts apart: the first finds no
  token for the account \<open>stale\<close> and reports an error for every other one; the second
  answers the account \<open>odd\<close> with claims that are not a mapping.
\<close>

definition lib_miss :: library where
  "lib_miss = lib0\<lparr> acquire_token_silent_with_error :=
     (\<lambda>client kwargs.
        if kwargs ''account'' = Some (PObj ''stale'') then Inr None
        else Inr (Some [''error'' \<mapsto> PStr ''invalid_grant'',
                        ''error_description'' \<mapsto> PStr ''expired''])) \<rparr>"

definition lib_claims :: library where
  "lib_claims = lib0\<lparr> acquire_token_silent_with_error :=
     (\<lambda>client kwargs.
        if kwargs ''account'' = Some (PObj ''odd'')
        then Inr (Some [''id_token_claims'' \<mapsto> PStr ''x''])
        else Inr None) \<rparr>"

text \<open>The error that \<open>_verify_state\<close> raises.\<close>

abbreviation state_error :: exn where
  "state_error \<equiv> AuthSecurityError ''Failed to match request state with session state''"

section \<open>Facts about the single steps\<close>

lemma verify_state_ok:
  "req_params ''state'' = Some s \<Longrightarrow> state c = Some s \<Longrightarrow>
   verify_state req_params c = (Inr (), c\<lparr>state := None\<rparr>)"
  by (simp add: verify_state_def)

lemma verify_state_fail:
  "req_params ''state'' = None \<or> req_params ''state'' \<noteq> state c \<Longrightarrow>
   verify_state req_params c = (Inl state_error, c)"
  by (auto simp add: verify_state_def)

lemma clear_session_const: "clear_session c = clear_session c'"
  by (simp add: clear_session_def)

lemma try_state_fail:
  "req_params ''state'' = None \<or> req_params ''state'' \<noteq> state c \<Longrightarrow>
   process_auth_redirect_try lib k cfg req_params next_action redirect_uri response_type c
     = (Inl state_error, c)"
  by (simp add: process_auth_redirect_try_def verify_state_fail)

section \<open>State verification\<close>

text \<open>
  Claim C1. When the request carries a \<open>state\<close> parameter equal to the state stored in
  Context Data, \<open>_verify_state\<close> succeeds and the stored state is absent afterwards. When
  the parameter is absent or differs from the stored state, \<open>_verify_state\<close> raises the
  security error, and \<open>process_auth_redirect\<close> clears Context Data and returns the
  \<open>next_action\<close> it was given.
\<close>

theorem state_verification:
  "(req_params ''state'' = Some s \<and> state c = Some s \<longrightarrow>
      verify_state req_params c = (Inr (), c\<lparr>state := None\<rparr>) \<and>
      state (snd (verify_state req_params c)) = None)
   \<and> (req_params ''state'' = None \<or> req_params ''state'' \<noteq> state c \<longrightarrow>
      fst (verify_state req_params c) = Inl state_error \<and>
      process_auth_redirect lib k cfg req_params next_action redirect_uri response_type c
        = (Inr (NextAction next_action), clear_session c))"
  by (auto simp add: verify_state_ok verify_state_fail try_state_fail
        process_auth_redirect_def remove_user_def)

theorem state_verification_witness:
  "verify_state [''state'' \<mapsto> ''s1''] c0 = (Inr (), c0\<lparr>state := None\<rparr>) \<and>
   state (snd (verify_state [''state'' \<mapsto> ''s1''] c0)) = None \<and>
   fst (verify_state [''state'' \<mapsto> ''wrong''] c0) = Inl state_error \<and>
   process_auth_redirect lib0 k0 cfg_b2c [''state'' \<mapsto> ''wrong''] ''home'' PNone PNone c0
     = (Inr (NextAction ''home''), clear_session c0) \<and>
   fst (verify_state Map.empty c0) = Inl state_error \<and>
   process_auth_redirect lib0 k0 cfg_b2c Map.empty ''home'' PNone PNone c0
     = (Inr (NextAction ''home''), clear_session c0)"
  using state_verification [where req_params = "[''state'' \<mapsto> ''s1'']" and s = "''s1''"
      and c = c0]
    state_verification [where req_params = "[''state'' \<mapsto> ''wrong'']" and c = c0
      and lib = lib0 and k = k0 and cfg = cfg_b2c and next_action = "''home''"
      and redirect_uri = PNone and response_type = PNone]
    state_verification [where req_params = "Map.empty" and c = c0 and lib = lib0
      and k = k0 and cfg = cfg_b2c and next_action = "''home''" and redirect_uri = PNone
      and response_type = PNone]
  by (simp add: c0_def)

text \<open>
  Claim C8. When the stored state is absent, \<open>_verify_state\<close> raises the security error
  for every request, also for one without a \<open>state\<close> parameter. Verification succeeds
  exactly when the request state and the stored state are both present and equal, and
  after a success every further verification against the same Context Data fails.
\<close>

theorem verify_state_single_use:
  "(state c = None \<longrightarrow> fst (verify_state req_params c) = Inl state_error)
   \<and> (fst (verify_state req_params c) = Inr () \<longleftrightarrow>
        (\<exists>s. req_params ''state'' = Some s \<and> state c = Some s))
   \<and> (fst (verify_state req_params c) = Inr () \<longrightarrow>
        (\<forall>req_params'. fst (verify_state req_params' (snd (verify_state req_params c)))
           = Inl state_error))"
  by (cases "req_params ''state''") (auto simp add: verify_state_def Let_def)

theorem verify_state_single_use_witness:
  "fst (verify_state Map.empty (c0\<lparr>state := None\<rparr>)) = Inl state_error \<and>
   fst (verify_state [''state'' \<mapsto> ''s1''] c0) = Inr () \<and>
   fst (verify_state [''state'' \<mapsto> ''s1''] (snd (verify_state [''state'' \<mapsto> ''s1''] c0)))
     = Inl state_error"
  using verify_state_single_use [where req_params = "Map.empty" and c = "c0\<lparr>state := None\<rparr>"]
    verify_state_single_use [where req_params = "[''state'' \<mapsto> ''s1'']" and c = c0]
  by (simp add: c0_def)

section \<open>Sign-out of the local session\<close>

text \<open>
  Claim C10. \<open>remove_user\<close> is idempotent: calling it twice in a row leaves Context Data in
  the same cleared state as calling it once.
\<close>

theorem remove_user_idempotent: "remove_user (remove_user c) = remove_user c"
  by (simp add: remove_user_def clear_session_def)

section \<open>Provider errors in the redirect\<close>

lemma parse_other:
  "req_params (ERROR_CODE_PARAM_KEY k) = Some code \<Longrightarrow>
   \<not> prefix (B2C_FORGOT_PASSWORD_ERROR_CODE k) code \<Longrightarrow>
   parse_redirect_errors k req_params
     = Inl (OtherAuthError ''Unknown error while parsing redirect'')"
  by (simp add: parse_redirect_errors_def)

lemma parse_password:
  "req_params (ERROR_CODE_PARAM_KEY k) = Some code \<Longrightarrow>
   prefix (B2C_FORGOT_PASSWORD_ERROR_CODE k) code \<Longrightarrow>
   parse_redirect_errors k req_params = Inl (B2CPasswordError ''B2C password reset request'')"
  by (simp add: parse_redirect_errors_def)

lemma parse_none:
  "req_params (ERROR_CODE_PARAM_KEY k) = None \<Longrightarrow> parse_redirect_errors k req_params = Inr ()"
  by (simp add: parse_redirect_errors_def)

lemma try_parse_fail:
  "req_params ''state'' = Some s \<Longrightarrow> state c = Some s \<Longrightarrow>
   parse_redirect_errors k req_params = Inl e \<Longrightarrow>
   process_auth_redirect_try lib k cfg req_params next_action redirect_uri response_type c
     = (Inl e, c\<lparr>state := None\<rparr>)"
  by (simp add: process_auth_redirect_try_def verify_state_ok)

text \<open>
  Claim C6. When the request passes state verification and carries a provider error code
  that does not begin with the forgot-password prefix, the handshake raises the generic
  provider error, \<open>process_auth_redirect\<close> clears the session and returns \<open>next_action\<close>
  unchanged. The classification depends on the error code alone: every request with the
  same error code is classified alike.
\<close>

theorem other_provider_error:
  assumes "req_params ''state'' = Some s" and "state c = Some s"
    and "req_params (ERROR_CODE_PARAM_KEY k) = Some code"
    and "\<not> prefix (B2C_FORGOT_PASSWORD_ERROR_CODE k) code"
  shows "parse_redirect_errors k req_params
           = Inl (OtherAuthError ''Unknown error while parsing redirect'')
       \<and> process_auth_redirect_try lib k cfg req_params next_action redirect_uri response_type c
           = (Inl (OtherAuthError ''Unknown error while parsing redirect''), c\<lparr>state := None\<rparr>)
       \<and> process_auth_redirect lib k cfg req_params next_action redirect_uri response_type c
           = (Inr (NextAction next_action), clear_session c)
       \<and> (\<forall>req_params'. req_params' (ERROR_CODE_PARAM_KEY k) = Some code \<longrightarrow>
            parse_redirect_errors k req_params' = parse_redirect_errors k req_params)"
proof -
  have p: "parse_redirect_errors k req_params
             = Inl (OtherAuthError ''Unknown error while parsing redirect'')"
    using assms(3,4) by (rule parse_other)
  have t: "process_auth_redirect_try lib k cfg req_params next_action redirect_uri response_type c
             = (Inl (OtherAuthError ''Unknown error while parsing redirect''), c\<lparr>state := None\<rparr>)"
    using assms(1,2) p by (rule try_parse_fail)
  have r: "process_auth_redirect lib k cfg req_params next_action redirect_uri response_type c
             = (Inr (NextAction next_action), clear_session c)"
    by (simp add: process_auth_redirect_def t remove_user_def clear_session_def)
  have q: "\<forall>req_params'. req_params' (ERROR_CODE_PARAM_KEY k) = Some code \<longrightarrow>
             parse_redirect_errors k req_params' = parse_redirect_errors k req_params"
    using assms(3) by (simp add: parse_redirect_errors_def)
  from p t r q show ?thesis by blast
qed

theorem other_provider_error_witness:
  "process_auth_redirect lib0 k0 cfg_b2c [''state'' \<mapsto> ''s1'', ''error'' \<mapsto> ''access_denied'']
     ''home'' PNone PNone c0 = (Inr (NextAction ''home''), clear_session c0) \<and>
   parse_redirect_errors k0 [''state'' \<mapsto> ''s1'', ''error'' \<mapsto> ''access_denied'']
     = Inl (OtherAuthError ''Unknown error while parsing redirect'')"
  using other_provider_error
    [where req_params = "[''state'' \<mapsto> ''s1'', ''error'' \<mapsto> ''access_denied'']"
      and s = "''s1''" and c = c0 and k = k0 and code = "''access_denied''" and lib = lib0
      and cfg = cfg_b2c and next_action = "''home''" and redirect_uri = PNone
      and response_type = PNone]
  by (simp add: c0_def k0_def)

section \<open>Processing a token result\<close>

lemma process_result_full:
  assumes "result ''error'' = None"
    and "result ''id_token_claims'' = Some (PDict claims)" and "claims ''name'' = Some name"
    and "result ''access_token'' = Some tok"
  shows "process_result result token_cache' c
           = (Inr (), c\<lparr>authenticated := True, id_token_claims := PDict claims, username := name,
                access_token := tok, has_changed := True, token_cache := token_cache'\<rparr>)"
  using assms by (simp add: process_result_def)

text \<open>
  Claim C9. For every result mapping without the key \<open>error\<close>, \<open>_process_result\<close> sets
  \<open>authenticated\<close>. When the mapping has neither \<open>id_token_claims\<close> nor \<open>access_token\<close> (the
  empty mapping, for one), the user name and the access token keep their values, while
  \<open>has_changed\<close> is set and the token cache is stored back.
\<close>

theorem process_result_success:
  "result ''error'' = None \<Longrightarrow>
   authenticated (snd (process_result result token_cache' c))
   \<and> (result ''id_token_claims'' = None \<and> result ''access_token'' = None \<longrightarrow>
        process_result result token_cache' c
          = (Inr (), c\<lparr>authenticated := True, has_changed := True, token_cache := token_cache'\<rparr>))"
  by (auto simp add: process_result_def Let_def split: option.splits pyval.splits)

theorem process_result_success_witness:
  "authenticated (snd (process_result Map.empty (PObj ''cache'') c0)) \<and>
   process_result Map.empty (PObj ''cache'') c0
     = (Inr (), c0\<lparr>authenticated := True, has_changed := True, token_cache := PObj ''cache''\<rparr>) \<and>
   username (snd (process_result Map.empty (PObj ''cache'') c0)) = username c0 \<and>
   access_token (snd (process_result Map.empty (PObj ''cache'') c0)) = access_token c0 \<and>
   authenticated (snd (process_result [''id_token_claims'' \<mapsto> PStr ''x''] PNone c0))"
  using process_result_success [where result = "Map.empty" and token_cache' = "PObj ''cache''"
      and c = c0]
    process_result_success [where result = "[''id_token_claims'' \<mapsto> PStr ''x'']"
      and token_cache' = "PNone" and c = c0]
  by simp

section \<open>The successful handshake\<close>

lemma try_success:
  assumes "req_params ''state'' = Some s" and "state c = Some s"
    and "parse_redirect_errors k req_params = Inr ()"
    and "resp_type_of k cfg response_type = Inr (PStr (ResponseType_CODE k))"
    and "x_change_auth_code_for_token lib k cfg (py_of (req_params (ResponseType_CODE k)))
           (token_cache c) redirect_uri (c\<lparr>state := None\<rparr>) = Inr result"
    and "process_result result (token_cache c) (c\<lparr>state := None\<rparr>) = (Inr (), c2)"
  shows "process_auth_redirect_try lib k cfg req_params next_action redirect_uri response_type c
           = (Inr next_action, c2)"
  using assms
  by (simp add: process_auth_redirect_try_def verify_state_ok extract_auth_response_payload_def)

text \<open>
  Claim C4. When state verification passes, the request carries no provider error, the
  response type is the authorization-code type, and the code exchange returns a result
  without an error that holds a \<open>name\<close> claim and an access token, then
  \<open>process_auth_redirect\<close> returns exactly the \<open>next_action\<close> it was given and leaves Context
  Data authenticated, with the user name of the \<open>name\<close> claim, the claims and the access
  token of the result, \<open>has_changed\<close> set and the token cache stored back (and the stored
  state used up).
\<close>

theorem code_exchange_success:
  assumes "req_params ''state'' = Some s" and "state c = Some s"
    and "req_params (ERROR_CODE_PARAM_KEY k) = None"
    and "resp_type_of k cfg response_type = Inr (PStr (ResponseType_CODE k))"
    and "x_change_auth_code_for_token lib k cfg (py_of (req_params (ResponseType_CODE k)))
           (token_cache c) redirect_uri (c\<lparr>state := None\<rparr>) = Inr result"
    and "result ''error'' = None"
    and "result ''id_token_claims'' = Some (PDict claims)" and "claims ''name'' = Some name"
    and "result ''access_token'' = Some tok"
  shows "process_auth_redirect lib k cfg req_params next_action redirect_uri response_type c
           = (Inr (NextAction next_action),
              c\<lparr>state := None, authenticated := True, id_token_claims := PDict claims,
                username := name, access_token := tok, has_changed := True,
                token_cache := token_cache c\<rparr>)"
proof -
  have p: "parse_redirect_errors k req_params = Inr ()"
    using assms(3) by (rule parse_none)
  have r: "process_result result (token_cache c) (c\<lparr>state := None\<rparr>)
             = (Inr (), c\<lparr>state := None, authenticated := True, id_token_claims := PDict claims,
                  username := name, access_token := tok, has_changed := True,
                  token_cache := token_cache c\<rparr>)"
    using assms(6-9) by (simp add: process_result_full)
  have t: "process_auth_redirect_try lib k cfg req_params next_action redirect_uri response_type c
             = (Inr next_action, c\<lparr>state := None, authenticated := True,
                  id_token_claims := PDict claims, username := name, access_token := tok,
                  has_changed := True, token_cache := token_cache c\<rparr>)"
    using assms(1,2) p assms(4,5) r by (rule try_success)
  show ?thesis by (simp add: process_auth_redirect_def t)
qed

theorem code_exchange_success_witness:
  "process_auth_redirect lib0 k0 cfg_aad [''state'' \<mapsto> ''s1'', ''code'' \<mapsto> ''abc''] ''home''
     PNone PNone c0
   = (Inr (NextAction ''home''),
      c0\<lparr>state := None, authenticated := True,
         id_token_claims := PDict [''name'' \<mapsto> PStr ''alice''], username := PStr ''alice'',
         access_token := PStr ''tok'', has_changed := True, token_cache := PNone\<rparr>)"
proof -
  have a: "resp_type_of k0 cfg_aad PNone = Inr (PStr (ResponseType_CODE k0))"
    by (simp add: resp_type_of_def auth_request_attr_def cfg_aad_def cfg_b2c_def k0_def py_or_def)
  have b: "x_change_auth_code_for_token lib0 k0 cfg_aad
             (py_of ([''state'' \<mapsto> ''s1'', ''code'' \<mapsto> ''abc''] (ResponseType_CODE k0)))
             (token_cache c0) PNone (c0\<lparr>state := None\<rparr>)
           = Inr [''access_token'' \<mapsto> PStr ''tok'',
                  ''id_token_claims'' \<mapsto> PDict [''name'' \<mapsto> PStr ''alice'']]"
    by (simp add: x_change_auth_code_for_token_def auth_request_attr_def cfg_aad_def
          cfg_b2c_def lib0_def from_client_def py_or_def)
  show ?thesis
    using code_exchange_success
      [where req_params = "[''state'' \<mapsto> ''s1'', ''code'' \<mapsto> ''abc'']"
        and s = "''s1''" and c = c0 and k = k0 and cfg = cfg_aad and response_type = PNone
        and lib = lib0 and redirect_uri = PNone
        and result = "[''access_token'' \<mapsto> PStr ''tok'',
                       ''id_token_claims'' \<mapsto> PDict [''name'' \<mapsto> PStr ''alice'']]"
        and claims = "[''name'' \<mapsto> PStr ''alice'']" and name = "PStr ''alice''"
        and tok = "PStr ''tok''" and next_action = "''home''", OF _ _ _ a b]
    by (simp add: c0_def k0_def)
qed

section \<open>Clients and authorization URLs\<close>

lemma client_factory_policy:
  "client_factory lib cfg PNone (PStr p) Map.empty
     = (client_dict cfg)(''authority'' \<mapsto> PStr (client_authority cfg @ p))"
  by (cases "p = []") (simp_all add: client_factory_def py_or_def format_value_def)

lemma get_auth_url_b2c_default:
  "authority_type cfg = AuthorityType_B2C k \<Longrightarrow>
   get_auth_url lib k cfg PNone PNone PNone kwargs c
     = (from_client (get_authorization_request_url lib
          ((client_dict cfg)(''authority'' \<mapsto> PStr (client_authority cfg @ b2c_susi cfg)))
          (auth_request_dict cfg ++ kwargs)),
        c\<lparr>last_used_b2c_policy := PStr (b2c_susi cfg)\<rparr>)"
  by (simp add: get_auth_url_def prepare_b2c_auth_def client_factory_policy)

lemma get_auth_url_fst:
  "\<exists>client kw. fst (get_auth_url lib k cfg redirect_uri b2c_policy tc kwargs c)
     = from_client (get_authorization_request_url lib client kw)"
  by (auto simp add: get_auth_url_def Let_def split: prod.splits)

lemma cfg_b2c_is_b2c: "authority_type cfg_b2c = AuthorityType_B2C k0"
  by (simp add: cfg_b2c_def k0_def)

lemma password_try:
  "process_auth_redirect_try lib k0 cfg
     [''state'' \<mapsto> ''s1'', ''error'' \<mapsto> ''AADB2C90118''] next_action PNone PNone c0
   = (Inl (B2CPasswordError ''B2C password reset request''), c0\<lparr>state := None\<rparr>)"
  by (rule try_parse_fail [where s = "''s1''"])
     (simp_all add: c0_def k0_def parse_redirect_errors_def)

section \<open>The password-reset remediation\<close>

text \<open>
  Claim C2. The claim asks that a forgot-password error, after a successful state
  verification, clears the session and yields a redirect to an authorization URL built
  for the password-reset policy. The theorem states what \<open>process_auth_redirect\<close> does
  under a policy-based configuration: the session is cleared and the outcome is the
  redirect to the URL the token client builds (or the client's exception), but the client
  is constructed with the authority of the sign-up/sign-in policy \<open>b2c.susi\<close>, which is
  also what \<open>last_used_b2c_policy\<close> records; the password-reset policy only travels as the
  extra keyword \<open>policy\<close> of the URL request.
\<close>

theorem password_reset_redirect:
  assumes "req_params ''state'' = Some s" and "state c = Some s"
    and "req_params (ERROR_CODE_PARAM_KEY k) = Some code"
    and "prefix (B2C_FORGOT_PASSWORD_ERROR_CODE k) code"
    and "authority_type cfg = AuthorityType_B2C k"
  shows "process_auth_redirect lib k cfg req_params next_action redirect_uri response_type c
       = ((case get_authorization_request_url lib
                 ((client_dict cfg)(''authority'' \<mapsto>
                    PStr (client_authority cfg @ b2c_susi cfg)))
                 (auth_request_dict cfg ++ [''policy'' \<mapsto> PStr (b2c_password cfg)]) of
             Inl m \<Rightarrow> Inl (ClientError m)
           | Inr url \<Rightarrow> Inr (RedirectTo url)),
          (clear_session c)\<lparr>last_used_b2c_policy := PStr (b2c_susi cfg)\<rparr>)"
proof -
  have p: "parse_redirect_errors k req_params
             = Inl (B2CPasswordError ''B2C password reset request'')"
    using assms(3,4) by (rule parse_password)
  have t: "process_auth_redirect_try lib k cfg req_params next_action redirect_uri response_type c
             = (Inl (B2CPasswordError ''B2C password reset request''), c\<lparr>state := None\<rparr>)"
    using assms(1,2) p by (rule try_parse_fail)
  have cl: "remove_user (c\<lparr>state := None\<rparr>) = clear_session c"
    by (simp add: remove_user_def clear_session_def)
  show ?thesis
    by (simp add: process_auth_redirect_def t cl get_auth_url_b2c_default [OF assms(5)]
          from_client_def redirect_to_absolute_url_def split: sum.splits)
qed

theorem password_reset_redirect_witness:
  "process_auth_redirect lib0 k0 cfg_b2c [''state'' \<mapsto> ''s1'', ''error'' \<mapsto> ''AADB2C90118'']
     ''home'' PNone PNone c0
   = (Inr (RedirectTo ''https://login.example/tenant/b2c_1_susi/oauth2/v2.0/authorize''),
      (clear_session c0)\<lparr>last_used_b2c_policy := PStr ''b2c_1_susi''\<rparr>)"
  using password_reset_redirect
    [where req_params = "[''state'' \<mapsto> ''s1'', ''error'' \<mapsto> ''AADB2C90118'']"
      and s = "''s1''" and c = c0 and k = k0 and code = "''AADB2C90118''" and cfg = cfg_b2c
      and lib = lib0 and next_action = "''home''" and redirect_uri = PNone
      and response_type = PNone]
  by (simp add: c0_def k0_def cfg_b2c_def lib0_def)

section \<open>The client of the code exchange\<close>

text \<open>
  What the exchange hands to the token client once its client is built: the code, the
  configured scopes, the redirect URI (the argument, else the configured one) and the
  nonce of the session.
\<close>

lemma x_change_call:
  assumes "auth_request_dict cfg ''scopes'' = Some scopes"
    and "auth_request_dict cfg ''redirect_uri'' = Some uri"
  shows "x_change_auth_code_for_token lib k cfg code tc PNone c
           = from_client (acquire_token_by_authorization_code lib
               (x_change_client lib k cfg tc c) code scopes (py_or uri PNone)
               (py_of (nonce c)))"
  using assms by (simp add: x_change_auth_code_for_token_def auth_request_attr_def)

text \<open>
  Claim C3. The claim asks that the code is redeemed by a client built with the policy
  that began the flow and hydrated with the token cache of the session. The theorem
  states what \<open>_x_change_auth_code_for_token\<close> builds under a policy-based configuration
  whose last used policy is \<open>p\<close>: the policy and the cache change places. Without a stored
  cache the authority has no policy segment; with a cache object the text of the object
  is appended to the authority; in both cases the policy is given as the token cache. The
  last equation is the client the keyword call \<open>_client_factory(b2c_policy=p)\<close> builds.
\<close>

theorem exchange_client_arguments:
  assumes "authority_type cfg = AuthorityType_B2C k"
    and "last_used_b2c_policy c = PStr p" and "p \<noteq> []"
  shows "x_change_client lib k cfg PNone c
           = (client_dict cfg)(''authority'' \<mapsto> PStr (client_authority cfg),
                ''token_cache'' \<mapsto> PStr p)
       \<and> x_change_client lib k cfg (PObj r) c
           = (client_dict cfg)(''authority'' \<mapsto> PStr (client_authority cfg @ str_of lib (PObj r)),
                ''token_cache'' \<mapsto> PStr p)
       \<and> client_factory lib cfg PNone (PStr p) Map.empty
           = (client_dict cfg)(''authority'' \<mapsto> PStr (client_authority cfg @ p))"
  using assms
  by (simp add: x_change_client_def client_factory_def py_or_def format_value_def)

theorem exchange_client_arguments_witness:
  "x_change_client lib0 k0 cfg_b2c (token_cache c0) c0
     = [''client_id'' \<mapsto> PStr ''app'', ''authority'' \<mapsto> PStr ''https://login.example/tenant/'',
        ''token_cache'' \<mapsto> PStr ''b2c_1_susi'']
   \<and> x_change_client lib0 k0 cfg_b2c (PObj ''cache'') c0
     = [''client_id'' \<mapsto> PStr ''app'',
        ''authority'' \<mapsto> PStr ''https://login.example/tenant/object'',
        ''token_cache'' \<mapsto> PStr ''b2c_1_susi'']"
  using exchange_client_arguments [where cfg = cfg_b2c and k = k0 and c = c0
      and p = "''b2c_1_susi''" and lib = lib0 and r = "''cache''"]
  by (simp add: c0_def k0_def cfg_b2c_def lib0_def)

section \<open>Exceptions at the boundary of the redirect handler\<close>

lemma verify_state_error:
  "verify_state req_params c = (Inl e, c1) \<Longrightarrow> e = state_error"
  by (auto simp add: verify_state_def Let_def split: if_splits)

lemma parse_error_cases:
  "parse_redirect_errors k req_params = Inl e \<Longrightarrow>
   e = B2CPasswordError ''B2C password reset request'' \<or>
   e = OtherAuthError ''Unknown error while parsing redirect''"
  by (auto simp add: parse_redirect_errors_def split: option.splits if_splits)

lemma resp_type_error: "resp_type_of k cfg response_type = Inl e \<Longrightarrow> \<exists>a. e = AttributeError a"
  by (auto simp add: resp_type_of_def auth_request_attr_def split: if_splits option.splits)

lemma extract_error:
  "extract_auth_response_payload k req_params t = Inl e \<Longrightarrow> \<exists>m. e = NotImplementedError m"
  by (auto simp add: extract_auth_response_payload_def split: if_splits)

lemma x_change_error:
  "x_change_auth_code_for_token lib k cfg code tc redirect_uri c = Inl e \<Longrightarrow>
   (\<exists>a. e = AttributeError a) \<or> (\<exists>m. e = ClientError m)"
  by (auto simp add: x_change_auth_code_for_token_def auth_request_attr_def from_client_def
        Let_def split: if_splits option.splits sum.splits)

lemma process_result_error:
  "process_result result tc c = (Inl e, c1) \<Longrightarrow>
   e = AttributeError ''get'' \<or> (c1 = c \<and> (\<exists>err d. e = TokenExchangeError err d))"
  by (auto simp add: process_result_def Let_def split: option.splits pyval.splits)

lemma try_password_only_from_parse:
  assumes "fst (process_auth_redirect_try lib k cfg req_params next_action redirect_uri
             response_type c) = Inl (B2CPasswordError m)"
  shows "parse_redirect_errors k req_params = Inl (B2CPasswordError ''B2C password reset request'')
       \<and> m = ''B2C password reset request''"
  using assms
  by (auto simp add: process_auth_redirect_try_def Let_def
        split: prod.splits sum.splits if_splits
        dest: verify_state_error parse_error_cases resp_type_error extract_error x_change_error
          process_result_error)

lemma try_returns_next_action:
  "fst (process_auth_redirect_try lib k cfg req_params next_action redirect_uri response_type c)
     = Inr r \<Longrightarrow> r = next_action"
  by (auto simp add: process_auth_redirect_try_def Let_def split: prod.splits sum.splits if_splits)

lemma redirect_other_error:
  assumes "fst (process_auth_redirect_try lib k cfg req_params next_action redirect_uri
             response_type c) = Inl e"
    and "\<forall>m. e \<noteq> B2CPasswordError m"
  shows "process_auth_redirect lib k cfg req_params next_action redirect_uri response_type c
           = (Inr (NextAction next_action), clear_session c)"
proof -
  obtain c1 where t: "process_auth_redirect_try lib k cfg req_params next_action redirect_uri
             response_type c = (Inl e, c1)"
    using assms(1) by (cases "process_auth_redirect_try lib k cfg req_params next_action
      redirect_uri response_type c") simp
  have cl: "remove_user c1 = clear_session c"
    by (simp add: remove_user_def clear_session_def)
  show ?thesis using assms(2)
    by (cases e) (simp_all add: process_auth_redirect_def t cl)
qed

lemma redirect_cases:
  "fst (process_auth_redirect lib k cfg req_params next_action redirect_uri response_type c)
     = Inr (NextAction next_action)
   \<or> (fst (process_auth_redirect_try lib k cfg req_params next_action redirect_uri
             response_type c) = Inl (B2CPasswordError ''B2C password reset request'')
      \<and> (\<exists>client kw.
           fst (process_auth_redirect lib k cfg req_params next_action redirect_uri response_type c)
             = (case get_authorization_request_url lib client kw of
                  Inl m \<Rightarrow> Inl (ClientError m) | Inr url \<Rightarrow> Inr (RedirectTo url))))"
proof (cases "process_auth_redirect_try lib k cfg req_params next_action redirect_uri
         response_type c")
  case (Pair o1 c1)
  show ?thesis
  proof (cases o1)
    case (Inr r)
    with Pair have "r = next_action"
      using try_returns_next_action [of lib k cfg req_params next_action redirect_uri
          response_type c r] by simp
    with Pair Inr show ?thesis by (simp add: process_auth_redirect_def)
  next
    case (Inl e)
    show ?thesis
    proof (cases "\<exists>m. e = B2CPasswordError m")
      case False
      with Pair Inl show ?thesis
        using redirect_other_error [of lib k cfg req_params next_action redirect_uri
            response_type c e] by simp
    next
      case True
      then obtain m where e: "e = B2CPasswordError m" by blast
      with Pair Inl have m: "m = ''B2C password reset request''"
        using try_password_only_from_parse [of lib k cfg req_params next_action redirect_uri
            response_type c m] by simp
      obtain client kw where g:
        "fst (get_auth_url lib k cfg PNone PNone PNone [''policy'' \<mapsto> PStr (b2c_password cfg)]
                (remove_user c1))
           = from_client (get_authorization_request_url lib client kw)"
        using get_auth_url_fst by blast
      have "fst (process_auth_redirect lib k cfg req_params next_action redirect_uri
                   response_type c)
              = (case get_authorization_request_url lib client kw of
                   Inl m \<Rightarrow> Inl (ClientError m) | Inr url \<Rightarrow> Inr (RedirectTo url))"
        using g
        by (cases "get_auth_url lib k cfg PNone PNone PNone
                     [''policy'' \<mapsto> PStr (b2c_password cfg)] (remove_user c1)")
           (auto simp add: process_auth_redirect_def Pair Inl e from_client_def
              redirect_to_absolute_url_def split: sum.splits)
      with Pair Inl e m show ?thesis by auto
    qed
  qed
qed

lemma down_try:
  "fst (process_auth_redirect_try lib_down k0 cfg_b2c
          [''state'' \<mapsto> ''s1'', ''code'' \<mapsto> ''abc''] ''home'' PNone PNone c0)
     = Inl (ClientError ''unreachable'')"
proof -
  have v: "verify_state [''state'' \<mapsto> ''s1'', ''code'' \<mapsto> ''abc''] c0 = (Inr (), c0\<lparr>state := None\<rparr>)"
    by (rule verify_state_ok [where s = "''s1''"]) (simp_all add: c0_def)
  have p: "parse_redirect_errors k0 [''state'' \<mapsto> ''s1'', ''code'' \<mapsto> ''abc''] = Inr ()"
    by (simp add: parse_redirect_errors_def k0_def)
  have r: "resp_type_of k0 cfg_b2c PNone = Inr (PStr (ResponseType_CODE k0))"
    by (simp add: resp_type_of_def auth_request_attr_def cfg_b2c_def k0_def py_or_def)
  have x: "x_change_auth_code_for_token lib_down k0 cfg_b2c code tc PNone c
             = Inl (ClientError ''unreachable'')" for code tc c
    by (simp add: x_change_auth_code_for_token_def auth_request_attr_def cfg_b2c_def
          from_client_def py_or_def lib_down_def)
  show ?thesis
    by (simp add: process_auth_redirect_try_def v p r x extract_auth_response_payload_def)
qed

text \<open>
  Claim C5, as amended. Every error raised by the steps inside the \<open>try\<close> statement (state
  verification, provider-error parsing, payload extraction, code exchange, result
  processing) is caught: unless the request carries the forgot-password error,
  \<open>process_auth_redirect\<close> returns the unchanged \<open>next_action\<close>, and whenever the steps
  raise an error other than the password-reset error, Context Data is cleared as well.
  For the forgot-password error the handler builds an authorization URL; when the token
  client builds authorization URLs without raising, the outcome is \<open>next_action\<close> or a
  redirect instruction also there.
\<close>

theorem redirect_errors_caught:
  "(parse_redirect_errors k req_params \<noteq> Inl (B2CPasswordError ''B2C password reset request'')
      \<longrightarrow> fst (process_auth_redirect lib k cfg req_params next_action redirect_uri
                 response_type c) = Inr (NextAction next_action))
   \<and> (\<forall>e. fst (process_auth_redirect_try lib k cfg req_params next_action redirect_uri
                 response_type c) = Inl e \<and> (\<forall>m. e \<noteq> B2CPasswordError m)
      \<longrightarrow> process_auth_redirect lib k cfg req_params next_action redirect_uri response_type c
            = (Inr (NextAction next_action), clear_session c))
   \<and> ((\<forall>client kwargs. \<exists>url. get_authorization_request_url lib client kwargs = Inr url)
      \<longrightarrow> fst (process_auth_redirect lib k cfg req_params next_action redirect_uri
                 response_type c) = Inr (NextAction next_action)
          \<or> (\<exists>url. fst (process_auth_redirect lib k cfg req_params next_action redirect_uri
                 response_type c) = Inr (RedirectTo url)))"
proof -
  let ?P = "process_auth_redirect lib k cfg req_params next_action redirect_uri response_type c"
  let ?T = "process_auth_redirect_try lib k cfg req_params next_action redirect_uri
              response_type c"
  let ?pw = "B2CPasswordError ''B2C password reset request''"
  note rc = redirect_cases [of lib k cfg req_params next_action redirect_uri response_type c]
  have one: "fst ?P = Inr (NextAction next_action)"
    if np: "parse_redirect_errors k req_params \<noteq> Inl ?pw"
  proof (rule ccontr)
    assume "fst ?P \<noteq> Inr (NextAction next_action)"
    with rc have "fst ?T = Inl ?pw" by simp
    then have "parse_redirect_errors k req_params = Inl ?pw"
      by (rule try_password_only_from_parse [THEN conjunct1])
    with np show False by simp
  qed
  have two: "?P = (Inr (NextAction next_action), clear_session c)"
    if "fst ?T = Inl e \<and> (\<forall>m. e \<noteq> B2CPasswordError m)" for e
    using that redirect_other_error [of lib k cfg req_params next_action redirect_uri
        response_type c e] by simp
  have three: "fst ?P = Inr (NextAction next_action) \<or> (\<exists>url. fst ?P = Inr (RedirectTo url))"
    if total: "\<forall>client kwargs. \<exists>url. get_authorization_request_url lib client kwargs = Inr url"
  proof (cases "fst ?P = Inr (NextAction next_action)")
    case True
    then show ?thesis by simp
  next
    case False
    with rc obtain client kw where
      p: "fst ?P = (case get_authorization_request_url lib client kw of
                      Inl m \<Rightarrow> Inl (ClientError m) | Inr url \<Rightarrow> Inr (RedirectTo url))"
      by auto
    from total obtain url where "get_authorization_request_url lib client kw = Inr url"
      by blast
    with p have "fst ?P = Inr (RedirectTo url)" by simp
    then show ?thesis by blast
  qed
  from one two three show ?thesis by blast
qed

theorem redirect_errors_caught_witness:
  "fst (process_auth_redirect lib_down k0 cfg_b2c [''state'' \<mapsto> ''wrong''] ''home'' PNone PNone c0)
     = Inr (NextAction ''home'')
   \<and> process_auth_redirect lib_down k0 cfg_b2c [''state'' \<mapsto> ''s1'', ''code'' \<mapsto> ''abc'']
       ''home'' PNone PNone c0 = (Inr (NextAction ''home''), clear_session c0)
   \<and> (fst (process_auth_redirect lib0 k0 cfg_b2c
             [''state'' \<mapsto> ''s1'', ''error'' \<mapsto> ''AADB2C90118''] ''home'' PNone PNone c0)
         = Inr (NextAction ''home'')
       \<or> (\<exists>url. fst (process_auth_redirect lib0 k0 cfg_b2c
             [''state'' \<mapsto> ''s1'', ''error'' \<mapsto> ''AADB2C90118''] ''home'' PNone PNone c0)
         = Inr (RedirectTo url)))"
proof -
  have h1: "parse_redirect_errors k0 [''state'' \<mapsto> ''wrong'']
              \<noteq> Inl (B2CPasswordError ''B2C password reset request'')"
    by (simp add: parse_redirect_errors_def k0_def)
  have h2: "fst (process_auth_redirect_try lib_down k0 cfg_b2c
                   [''state'' \<mapsto> ''s1'', ''code'' \<mapsto> ''abc''] ''home'' PNone PNone c0)
              = Inl (ClientError ''unreachable'')
            \<and> (\<forall>m. ClientError ''unreachable'' \<noteq> B2CPasswordError m)"
    by (simp add: down_try)
  have h3: "\<forall>client kwargs. \<exists>url. get_authorization_request_url lib0 client kwargs = Inr url"
    by (simp add: lib0_def split: option.split pyval.split)
  note a = redirect_errors_caught [where k = k0 and req_params = "[''state'' \<mapsto> ''wrong'']"
        and lib = lib_down and cfg = cfg_b2c and next_action = "''home''"
        and redirect_uri = PNone and response_type = PNone and c = c0, THEN conjunct1,
        THEN mp, OF h1]
  note b = redirect_errors_caught [where k = k0
        and req_params = "[''state'' \<mapsto> ''s1'', ''code'' \<mapsto> ''abc'']"
        and lib = lib_down and cfg = cfg_b2c and next_action = "''home''"
        and redirect_uri = PNone and response_type = PNone and c = c0,
        THEN conjunct2, THEN conjunct1, THEN spec, THEN mp, OF h2]
  note d = redirect_errors_caught [where k = k0
        and req_params = "[''state'' \<mapsto> ''s1'', ''error'' \<mapsto> ''AADB2C90118'']"
        and lib = lib0 and cfg = cfg_b2c and next_action = "''home''"
        and redirect_uri = PNone and response_type = PNone and c = c0,
        THEN conjunct2, THEN conjunct2, THEN mp, OF h3]
  from a b d show ?thesis by (intro conjI)
qed

text \<open>
  The claim as stated, for every input, fails: with a token client that raises while the
  authorization URL of the password-reset remediation is built, the exception leaves
  \<open>process_auth_redirect\<close>, because it is raised inside an \<open>except\<close> clause.
\<close>

theorem redirect_exception_escapes:
  "fst (process_auth_redirect lib_down k0 cfg_b2c
          [''state'' \<mapsto> ''s1'', ''error'' \<mapsto> ''AADB2C90118''] ''home'' PNone PNone c0)
     = Inl (ClientError ''unreachable'')"
proof -
  have g: "get_auth_url lib_down k0 cfg_b2c PNone PNone PNone kwargs c
             = (Inl (ClientError ''unreachable''),
                c\<lparr>last_used_b2c_policy := PStr (b2c_susi cfg_b2c)\<rparr>)" for kwargs c
    by (simp add: get_auth_url_b2c_default [OF cfg_b2c_is_b2c] from_client_def lib_down_def)
  show ?thesis
    by (simp add: process_auth_redirect_def password_try g)
qed

section \<open>Silent token acquisition\<close>

lemma process_result_error_payload:
  "result ''error'' = Some err \<Longrightarrow>
   process_result result tc c
     = (Inl (TokenExchangeError err
          (case result ''error_description'' of None \<Rightarrow> PNone | Some d \<Rightarrow> d)), c)"
  by (simp add: process_result_def)

lemma process_result_unchanged:
  assumes "fst (process_result result tc c) = Inl e" and "e \<noteq> AttributeError ''get''"
  shows "snd (process_result result tc c) = c"
proof (cases "process_result result tc c")
  case (Pair o1 c1)
  with assms(1) have "process_result result tc c = (Inl e, c1)" by simp
  then have "e = AttributeError ''get'' \<or> c1 = c"
    using process_result_error by blast
  with assms(2) Pair show ?thesis by simp
qed

lemma silent_call:
  assumes "silent_scopes cfg scopes = Inr sc"
    and "silent_account lib (client_factory lib cfg (py_or tc (token_cache c)) PNone Map.empty)
           account = Inr acc"
  shows "acquire_token_silently lib cfg scopes account tc kwargs c
           = (case acquire_token_silent_with_error lib
                     (client_factory lib cfg (py_or tc (token_cache c)) PNone Map.empty)
                     (kwargs(''scopes'' \<mapsto> sc, ''account'' \<mapsto> acc)) of
                Inl m \<Rightarrow> (Inl (ClientError m), c)
              | Inr None \<Rightarrow> (Inl TypeError, c)
              | Inr (Some result) \<Rightarrow> process_result result (py_or tc (token_cache c)) c)"
  using assms
  by (simp add: acquire_token_silently_def Let_def from_client_def
        split: sum.splits option.splits)

lemma silent_unchanged:
  assumes "fst (acquire_token_silently lib cfg scopes account tc kwargs c) = Inl e"
    and "e \<noteq> AttributeError ''get''"
  shows "snd (acquire_token_silently lib cfg scopes account tc kwargs c) = c"
proof (cases "silent_scopes cfg scopes")
  case (Inl e1)
  then show ?thesis by (simp add: acquire_token_silently_def Let_def)
next
  case sc: (Inr sc)
  show ?thesis
  proof (cases "silent_account lib
      (client_factory lib cfg (py_or tc (token_cache c)) PNone Map.empty) account")
    case (Inl e2)
    with sc show ?thesis by (simp add: acquire_token_silently_def Let_def)
  next
    case acc: (Inr acc)
    note eq = silent_call [OF sc acc, of kwargs]
    show ?thesis
    proof (cases "acquire_token_silent_with_error lib
        (client_factory lib cfg (py_or tc (token_cache c)) PNone Map.empty)
        (kwargs(''scopes'' \<mapsto> sc, ''account'' \<mapsto> acc))")
      case (Inl m)
      with eq show ?thesis by simp
    next
      case r: (Inr r)
      show ?thesis
      proof (cases r)
        case None
        with eq r show ?thesis by simp
      next
        case (Some result)
        with eq r have q: "acquire_token_silently lib cfg scopes account tc kwargs c
            = process_result result (py_or tc (token_cache c)) c" by simp
        from assms show ?thesis
          unfolding q by (rule process_result_unchanged)
      qed
    qed
  qed
qed

lemma silent_no_account:
  assumes "\<not> truthy account"
    and "truthy scopes \<or> auth_request_dict cfg ''scopes'' \<noteq> None"
    and "get_accounts lib (client_factory lib cfg (py_or tc (token_cache c)) PNone Map.empty)
           = Inr []"
  shows "acquire_token_silently lib cfg scopes account tc kwargs c = (Inl IndexError, c)"
  using assms
  by (auto simp add: acquire_token_silently_def Let_def silent_scopes_def silent_account_def
        auth_request_attr_def from_client_def)

lemma cfg_aad_scopes:
  "silent_scopes cfg_aad PNone = Inr (PList [PStr ''read''])"
  by (simp add: silent_scopes_def auth_request_attr_def cfg_aad_def cfg_b2c_def)

text \<open>
  Claim C7, as amended. When \<open>acquire_token_silently\<close> is called without an explicit
  account and the client reports no cached account, Python's \<open>IndexError\<close> of reading
  the first account is raised, before the silent acquisition is asked for anything, and
  Context Data is unchanged, \<open>authenticated\<close> included. Every failure of the call other
  than the \<open>AttributeError\<close> of reading claims that are not a mapping leaves Context Data
  as it was. Once the scopes and the account are settled, the answer of the silent
  acquisition to the very call that is made decides the outcome: an exception of the
  client is surfaced as it is, the answer \<open>None\<close> as \<open>TypeError\<close>, and an error payload as
  the \<open>TokenExchangeError\<close> carrying its \<open>error\<close> and \<open>error_description\<close>, each with Context
  Data unchanged.
\<close>

theorem silent_acquisition_failure:
  "(\<not> truthy account \<and> (truthy scopes \<or> auth_request_dict cfg ''scopes'' \<noteq> None) \<and>
      get_accounts lib (client_factory lib cfg (py_or tc (token_cache c)) PNone Map.empty)
        = Inr []
      \<longrightarrow> acquire_token_silently lib cfg scopes account tc kwargs c = (Inl IndexError, c))
   \<and> (\<forall>e. fst (acquire_token_silently lib cfg scopes account tc kwargs c) = Inl e \<and>
          e \<noteq> AttributeError ''get''
      \<longrightarrow> snd (acquire_token_silently lib cfg scopes account tc kwargs c) = c)
   \<and> (\<forall>sc acc.
        silent_scopes cfg scopes = Inr sc \<and>
        silent_account lib (client_factory lib cfg (py_or tc (token_cache c)) PNone Map.empty)
          account = Inr acc
      \<longrightarrow> (\<forall>m. acquire_token_silent_with_error lib
                  (client_factory lib cfg (py_or tc (token_cache c)) PNone Map.empty)
                  (kwargs(''scopes'' \<mapsto> sc, ''account'' \<mapsto> acc)) = Inl m
              \<longrightarrow> acquire_token_silently lib cfg scopes account tc kwargs c
                    = (Inl (ClientError m), c))
          \<and> (acquire_token_silent_with_error lib
                  (client_factory lib cfg (py_or tc (token_cache c)) PNone Map.empty)
                  (kwargs(''scopes'' \<mapsto> sc, ''account'' \<mapsto> acc)) = Inr None
              \<longrightarrow> acquire_token_silently lib cfg scopes account tc kwargs c
                    = (Inl TypeError, c))
          \<and> (\<forall>result err. acquire_token_silent_with_error lib
                  (client_factory lib cfg (py_or tc (token_cache c)) PNone Map.empty)
                  (kwargs(''scopes'' \<mapsto> sc, ''account'' \<mapsto> acc)) = Inr (Some result) \<and>
                result ''error'' = Some err
              \<longrightarrow> acquire_token_silently lib cfg scopes account tc kwargs c
                    = (Inl (TokenExchangeError err
                         (case result ''error_description'' of
                            None \<Rightarrow> PNone | Some d \<Rightarrow> d)), c)))"
proof -
  let ?R = "acquire_token_silently lib cfg scopes account tc kwargs c"
  let ?client = "client_factory lib cfg (py_or tc (token_cache c)) PNone Map.empty"
  have one: "?R = (Inl IndexError, c)"
    if "\<not> truthy account \<and> (truthy scopes \<or> auth_request_dict cfg ''scopes'' \<noteq> None) \<and>
        get_accounts lib ?client = Inr []"
    using that silent_no_account [of account scopes cfg lib tc c kwargs] by simp
  have two: "snd ?R = c" if "fst ?R = Inl e \<and> e \<noteq> AttributeError ''get''" for e
    using that silent_unchanged [of lib cfg scopes account tc kwargs c e] by simp
  have three:
    "(\<forall>m. acquire_token_silent_with_error lib ?client
             (kwargs(''scopes'' \<mapsto> sc, ''account'' \<mapsto> acc)) = Inl m
         \<longrightarrow> ?R = (Inl (ClientError m), c))
     \<and> (acquire_token_silent_with_error lib ?client
             (kwargs(''scopes'' \<mapsto> sc, ''account'' \<mapsto> acc)) = Inr None
         \<longrightarrow> ?R = (Inl TypeError, c))
     \<and> (\<forall>result err. acquire_token_silent_with_error lib ?client
             (kwargs(''scopes'' \<mapsto> sc, ''account'' \<mapsto> acc)) = Inr (Some result) \<and>
           result ''error'' = Some err
         \<longrightarrow> ?R = (Inl (TokenExchangeError err
                    (case result ''error_description'' of None \<Rightarrow> PNone | Some d \<Rightarrow> d)), c))"
    if h: "silent_scopes cfg scopes = Inr sc \<and> silent_account lib ?client account = Inr acc"
    for sc acc
  proof -
    note eq = silent_call [OF h [THEN conjunct1] h [THEN conjunct2], of kwargs]
    show ?thesis
      by (simp add: eq process_result_error_payload)
  qed
  show ?thesis
  proof (intro conjI allI impI)
    assume "\<not> truthy account \<and> (truthy scopes \<or> auth_request_dict cfg ''scopes'' \<noteq> None) \<and>
        get_accounts lib ?client = Inr []"
    then show "?R = (Inl IndexError, c)" by (rule one)
  next
    fix e assume "fst ?R = Inl e \<and> e \<noteq> AttributeError ''get''"
    then show "snd ?R = c" by (rule two)
  next
    fix sc acc m
    assume h: "silent_scopes cfg scopes = Inr sc \<and> silent_account lib ?client account = Inr acc"
      and "acquire_token_silent_with_error lib ?client
             (kwargs(''scopes'' \<mapsto> sc, ''account'' \<mapsto> acc)) = Inl m"
    then show "?R = (Inl (ClientError m), c)"
      using three [OF h] by simp
  next
    fix sc acc
    assume h: "silent_scopes cfg scopes = Inr sc \<and> silent_account lib ?client account = Inr acc"
      and "acquire_token_silent_with_error lib ?client
             (kwargs(''scopes'' \<mapsto> sc, ''account'' \<mapsto> acc)) = Inr None"
    then show "?R = (Inl TypeError, c)"
      using three [OF h] by simp
  next
    fix sc acc result err
    assume h: "silent_scopes cfg scopes = Inr sc \<and> silent_account lib ?client account = Inr acc"
      and "acquire_token_silent_with_error lib ?client
             (kwargs(''scopes'' \<mapsto> sc, ''account'' \<mapsto> acc)) = Inr (Some result) \<and>
           result ''error'' = Some err"
    then show "?R = (Inl (TokenExchangeError err
                    (case result ''error_description'' of None \<Rightarrow> PNone | Some d \<Rightarrow> d)), c)"
      using three [OF h] by simp
  qed
qed

theorem silent_acquisition_failure_witness:
  "acquire_token_silently lib0 cfg_aad PNone PNone PNone Map.empty
       (c0\<lparr>token_cache := PObj ''cache''\<rparr>)
     = (Inl IndexError, c0\<lparr>token_cache := PObj ''cache''\<rparr>)
   \<and> acquire_token_silently lib_down cfg_aad PNone (PObj ''fresh'') PNone Map.empty
       (c0\<lparr>token_cache := PObj ''cache''\<rparr>)
     = (Inl (ClientError ''unreachable''), c0\<lparr>token_cache := PObj ''cache''\<rparr>)
   \<and> acquire_token_silently lib_miss cfg_aad PNone (PObj ''stale'') PNone Map.empty
       (c0\<lparr>token_cache := PObj ''cache''\<rparr>)
     = (Inl TypeError, c0\<lparr>token_cache := PObj ''cache''\<rparr>)
   \<and> acquire_token_silently lib_miss cfg_aad PNone (PObj ''fresh'') PNone Map.empty
       (c0\<lparr>token_cache := PObj ''cache''\<rparr>)
     = (Inl (TokenExchangeError (PStr ''invalid_grant'') (PStr ''expired'')),
        c0\<lparr>token_cache := PObj ''cache''\<rparr>)"
proof -
  let ?c = "c0\<lparr>token_cache := PObj ''cache''\<rparr>"
  have h1: "\<not> truthy PNone \<and> (truthy PNone \<or> auth_request_dict cfg_aad ''scopes'' \<noteq> None) \<and>
      get_accounts lib0 (client_factory lib0 cfg_aad (py_or PNone (token_cache ?c)) PNone Map.empty)
        = Inr []"
    by (simp add: lib0_def cfg_aad_def cfg_b2c_def)
  have acc: "silent_account lib client (PObj a) = Inr (PObj a)" for lib client a
    by (simp add: silent_account_def)
  have h2: "silent_scopes cfg_aad PNone = Inr (PList [PStr ''read'']) \<and>
      silent_account lib (client_factory lib cfg_aad (py_or PNone (token_cache ?c)) PNone
        Map.empty) (PObj a) = Inr (PObj a)" for lib a
    by (simp add: cfg_aad_scopes acc)
  have r2: "acquire_token_silent_with_error lib_down client opts = Inl ''unreachable''"
    for client opts
    by (simp add: lib_down_def)
  have r3: "acquire_token_silent_with_error lib_miss client
              (Map.empty(''scopes'' \<mapsto> sc, ''account'' \<mapsto> PObj ''stale'')) = Inr None"
    for client sc
    by (simp add: lib_miss_def)
  have r4: "acquire_token_silent_with_error lib_miss client
              (Map.empty(''scopes'' \<mapsto> sc, ''account'' \<mapsto> PObj ''fresh''))
              = Inr (Some [''error'' \<mapsto> PStr ''invalid_grant'',
                           ''error_description'' \<mapsto> PStr ''expired''])
            \<and> [''error'' \<mapsto> PStr ''invalid_grant'', ''error_description'' \<mapsto> PStr ''expired'']
                ''error'' = Some (PStr ''invalid_grant'')"
    for client sc
    by (simp add: lib_miss_def)
  note a = silent_acquisition_failure [where lib = lib0 and cfg = cfg_aad and scopes = PNone
      and account = PNone and tc = PNone and kwargs = Map.empty and c = ?c,
      THEN conjunct1, THEN mp, OF h1]
  note b = silent_acquisition_failure [where lib = lib_down and cfg = cfg_aad and scopes = PNone
      and account = "PObj ''fresh''" and tc = PNone and kwargs = Map.empty and c = ?c,
      THEN conjunct2, THEN conjunct2, THEN spec, THEN spec, THEN mp, OF h2,
      THEN conjunct1, THEN spec, THEN mp, OF r2]
  note d = silent_acquisition_failure [where lib = lib_miss and cfg = cfg_aad and scopes = PNone
      and account = "PObj ''stale''" and tc = PNone and kwargs = Map.empty and c = ?c,
      THEN conjunct2, THEN conjunct2, THEN spec, THEN spec, THEN mp, OF h2,
      THEN conjunct2, THEN conjunct1, THEN mp, OF r3]
  note e = silent_acquisition_failure [where lib = lib_miss and cfg = cfg_aad and scopes = PNone
      and account = "PObj ''fresh''" and tc = PNone and kwargs = Map.empty and c = ?c,
      THEN conjunct2, THEN conjunct2, THEN spec, THEN spec, THEN mp, OF h2,
      THEN conjunct2, THEN conjunct2, THEN spec, THEN spec, THEN mp, OF r4]
  from a b d e show ?thesis by simp
qed

text \<open>
  The claim as stated fails on two counts. In the scenario without a cached account the
  error that surfaces is the \<open>IndexError\<close> of indexing the empty list, although this
  token client would answer every silent acquisition with the error
  \<open>interaction_required\<close>: the client is never asked. And a silent acquisition can fail
  with Context Data changed: when the result has no \<open>error\<close> and its claims are not a
  mapping, \<open>_process_result\<close> has set \<open>authenticated\<close> before the \<open>AttributeError\<close> of reading
  the claims is raised.
\<close>

theorem silent_failure_mutates:
  "acquire_token_silently lib0 cfg_aad PNone PNone PNone Map.empty
       (c0\<lparr>token_cache := PObj ''cache''\<rparr>)
     = (Inl IndexError, c0\<lparr>token_cache := PObj ''cache''\<rparr>)
   \<and> fst (acquire_token_silently lib_claims cfg_aad PNone (PObj ''odd'') PNone Map.empty
            (c0\<lparr>token_cache := PObj ''cache''\<rparr>)) = Inl (AttributeError ''get'')
   \<and> authenticated (snd (acquire_token_silently lib_claims cfg_aad PNone (PObj ''odd'') PNone
            Map.empty (c0\<lparr>token_cache := PObj ''cache''\<rparr>)))
   \<and> \<not> authenticated (c0\<lparr>token_cache := PObj ''cache''\<rparr>)"
proof -
  let ?c = "c0\<lparr>token_cache := PObj ''cache''\<rparr>"
  have a: "acquire_token_silently lib0 cfg_aad PNone PNone PNone Map.empty ?c
             = (Inl IndexError, ?c)"
    by (rule silent_no_account) (simp_all add: lib0_def cfg_aad_def cfg_b2c_def)
  have acc: "silent_account lib_claims
               (client_factory lib_claims cfg_aad (py_or PNone (token_cache ?c)) PNone Map.empty)
               (PObj ''odd'') = Inr (PObj ''odd'')"
    by (simp add: silent_account_def)
  have r: "acquire_token_silent_with_error lib_claims client
             (Map.empty(''scopes'' \<mapsto> sc, ''account'' \<mapsto> PObj ''odd''))
           = Inr (Some [''id_token_claims'' \<mapsto> PStr ''x''])" for client sc
    by (simp add: lib_claims_def)
  have b: "acquire_token_silently lib_claims cfg_aad PNone (PObj ''odd'') PNone Map.empty ?c
             = process_result [''id_token_claims'' \<mapsto> PStr ''x'']
                 (py_or PNone (token_cache ?c)) ?c"
    by (simp add: silent_call [OF cfg_aad_scopes acc] r)
  have p: "process_result [''id_token_claims'' \<mapsto> PStr ''x''] tc c
             = (Inl (AttributeError ''get''),
                c\<lparr>authenticated := True, id_token_claims := PStr ''x''\<rparr>)" for tc c
    by (simp add: process_result_def)
  show ?thesis
    by (simp add: a b p) (simp add: c0_def)
qed

end
